theory Spec2Isabelle
  imports Main
begin

section \<open>Exceptions\<close>

text \<open>
  The exceptions that the views of \<^verbatim>\<open>tabbycat/api/views.py\<close> raise themselves or
  let through. \<^verbatim>\<open>Http404\<close> is the only one that reaches the client as "not found";
  \<^verbatim>\<open>DoesNotExist\<close>, \<^verbatim>\<open>AttributeError\<close> and \<^verbatim>\<open>KeyError\<close> are ordinary Python
  exceptions that nothing in the file catches. \<^verbatim>\<open>Raised\<close> stands for whatever a
  collaborator outside the file raises.
\<close>

datatype error =
    Http404
  | PermissionDenied
  | DoesNotExist
  | MultipleObjectsReturned
  | RelatedObjectDoesNotExist
  | AttributeError
  | KeyError
  | Raised string

section \<open>Pairing visibility (PairingViewSet.Permission)\<close>

text \<open>
  \<^verbatim>\<open>Round.STATUS_*\<close> is declared in \<^verbatim>\<open>tournaments.models\<close>, which is not part of
  the sources; the four draw-release states are those the specification lists
  (none, drafted, confirmed, released).
\<close>

datatype draw_status = STATUS_NONE | STATUS_DRAFT | STATUS_CONFIRMED | STATUS_RELEASED

record round_rec =
  round_id :: nat
  draw_status :: draw_status

text \<open>
  \<^verbatim>\<open>self.tournament\<close> is resolved from the URL by \<^verbatim>\<open>TournamentAPIMixin\<close> and
  \<^verbatim>\<open>RoundAPIMixin\<close> (\<^verbatim>\<open>api/mixins.py\<close>, not part of the sources); the views only read it.
  \<^verbatim>\<open>tournament.pref(key)\<close> is dynamically typed: \<^verbatim>\<open>pref\<close> holds the enumerated
  release preferences and \<^verbatim>\<open>checkin_window\<close> the check-in windows.
\<close>

record tournament_rec =
  tournament_pk :: nat
  slug :: string
  current_round :: round_rec
  pref :: "string \<Rightarrow> string"
  checkin_window :: "string \<Rightarrow> int"

record api_view =
  tournament :: tournament_rec

record pairing_view = api_view +
  round :: round_rec
  access_preference :: string

text \<open>\<^verbatim>\<open>round_released_field = 'draw_status'\<close>, \<^verbatim>\<open>round_released_value = Round.STATUS_RELEASED\<close>.\<close>

definition round_released_value :: draw_status where
  "round_released_value = STATUS_RELEASED"

text \<open>
  \<^verbatim>\<open>
  def get_round_status(self, view):
      return getattr(view.round, view.round_released_field) == view.round_released_value
  \<close>
\<close>

definition get_round_status :: "pairing_view \<Rightarrow> bool" where
  "get_round_status view = (draw_status (round view) = round_released_value)"

text \<open>
  \<^verbatim>\<open>
  def get_tournament_preference(self, view, op):
      return {
          'off': False,
          'current': view.tournament.current_round.id == view.round.id and self.get_round_status(view),
          'all-released': self.get_round_status(view),
      }[view.tournament.pref(view.access_preference)]
  \<close>
  The dictionary is built first, with all three values, and then indexed by the
  preference; a preference that is not one of the three keys raises \<^verbatim>\<open>KeyError\<close>.
  The argument \<^verbatim>\<open>op\<close> is not used.
\<close>

definition get_tournament_preference :: "pairing_view \<Rightarrow> error + bool" where
  "get_tournament_preference view =
     (let table =
        [(''off'', False),
         (''current'',
            round_id (current_round (tournament view)) = round_id (round view)
            \<and> get_round_status view),
         (''all-released'', get_round_status view)]
      in case map_of table (pref (tournament view) (access_preference view)) of
           None \<Rightarrow> Inl KeyError
         | Some b \<Rightarrow> Inr b)"

text \<open>
  Modelled from the spec: \<^verbatim>\<open>PublicPreferencePermission.has_permission\<close>, the base
  class of \<^verbatim>\<open>PairingViewSet.Permission\<close> in \<^verbatim>\<open>api/permissions.py\<close>, is not part of the
  sources. The specification's gate: an administrator is granted access unconditionally;
  any other requester is granted access exactly when the preference lookup says so.
\<close>

definition has_permission :: "bool \<Rightarrow> pairing_view \<Rightarrow> error + bool" where
  "has_permission is_administrator view =
     (if is_administrator then Inr True else get_tournament_preference view)"

section \<open>Check-ins (BaseCheckinsView)\<close>

subsection \<open>Rows, identifiers and events\<close>

text \<open>
  The model classes that the concrete views set as \<^verbatim>\<open>model\<close>: the check-in views
  use \<^verbatim>\<open>Adjudicator\<close>, \<^verbatim>\<open>Speaker\<close> and \<^verbatim>\<open>Venue\<close>, the standings views
  \<^verbatim>\<open>Speaker\<close> and \<^verbatim>\<open>Team\<close>.
\<close>

datatype model = Adjudicator | Speaker | Team | Venue

text \<open>
  The identifier and event models live in \<^verbatim>\<open>checkins.models\<close>, which is not part of
  the sources. An identifier is read by the views through \<^verbatim>\<open>.barcode\<close> and
  \<^verbatim>\<open>.instance_attr\<close> only; following the specification it is a scannable code owned
  by one checkable, and it owns no identifier of its own. An event is the specification's
  record of identifier, boolean state, timestamp and actor.
\<close>

record identifier_rec =
  barcode :: string
  instance_attr :: string

text \<open>
  A row of a person or venue table. \<^verbatim>\<open>in_tournament\<close> is the tournament reached
  through the view's \<^verbatim>\<open>tournament_field\<close>; \<^verbatim>\<open>checkin_identifier\<close> is the reverse
  one-to-one relation, absent (\<^verbatim>\<open>hasattr\<close> is false) until an identifier is created.
\<close>

record checkable =
  pk :: nat
  in_tournament :: nat
  checkin_identifier :: "identifier_rec option"

record event =
  ev_identifier :: identifier_rec
  ev_state :: bool
  ev_time :: int
  ev_actor :: string

record db =
  objects :: "model \<Rightarrow> checkable list"
  events :: "event list"
  now :: int

text \<open>The JSON message that \<^verbatim>\<open>broadcast_checkin\<close> hands to the consumer.\<close>

record message =
  barcodes :: "string list"
  status :: bool
  msg_type :: string
  component_id :: "string option"

text \<open>
  The store together with the trace of the messages handed to the consumer, in order.
\<close>

record world =
  store :: db
  sent :: "message list"

text \<open>
  The consumer \<^verbatim>\<open>CheckInEventConsumer\<close> (\<^verbatim>\<open>checkins.consumers\<close>) and the helper
  \<^verbatim>\<open>create_identifiers\<close> (\<^verbatim>\<open>checkins.utils\<close>) are not part of the sources: the
  views take them as parameters. Either may raise, and either may have changed the store
  by then.
\<close>

type_synonym consumer = "message \<Rightarrow> db \<Rightarrow> (error + unit) \<times> db"

type_synonym identifier_creator = "model \<Rightarrow> checkable list \<Rightarrow> db \<Rightarrow> (error + unit) \<times> db"

subsection \<open>The view and its request\<close>

record model_view = api_view +
  model :: model

record checkins_view = model_view +
  object_api_view :: string
  window_preference_pref :: string
  kwargs_pk :: nat

definition AdjudicatorCheckinsView :: "tournament_rec \<Rightarrow> nat \<Rightarrow> checkins_view" where
  "AdjudicatorCheckinsView t k =
     \<lparr>tournament = t, model = Adjudicator, object_api_view = ''api-adjudicator-detail'',
      window_preference_pref = ''checkin_window_people'', kwargs_pk = k\<rparr>"

definition SpeakerCheckinsView :: "tournament_rec \<Rightarrow> nat \<Rightarrow> checkins_view" where
  "SpeakerCheckinsView t k =
     \<lparr>tournament = t, model = Speaker, object_api_view = ''api-speaker-detail'',
      window_preference_pref = ''checkin_window_people'', kwargs_pk = k\<rparr>"

definition VenueCheckinsView :: "tournament_rec \<Rightarrow> nat \<Rightarrow> checkins_view" where
  "VenueCheckinsView t k =
     \<lparr>tournament = t, model = Venue, object_api_view = ''api-venue-detail'',
      window_preference_pref = ''checkin_window_venues'', kwargs_pk = k\<rparr>"

text \<open>The value of \<^verbatim>\<open>reverse(view_name, kwargs=..., format=...)\<close>, kept as its arguments.\<close>

record object_ref =
  ref_view :: string
  ref_tournament_slug :: string
  ref_pk :: nat
  ref_format :: "string option"

record response =
  r_object :: object_ref
  r_barcode :: string
  r_checked :: bool

subsection \<open>Querysets\<close>

text \<open>
  \<^verbatim>\<open>
  def get_queryset(self):
      return self.model.objects.filter(**self.lookup_kwargs()).select_related(self.tournament_field)
  \<close>
  with \<^verbatim>\<open>lookup_kwargs\<close> of \<^verbatim>\<open>TournamentAPIMixin\<close> selecting the rows of the view's
  tournament.
\<close>

definition get_queryset :: "checkins_view \<Rightarrow> db \<Rightarrow> checkable list" where
  "get_queryset view d =
     filter (\<lambda>c. in_tournament c = tournament_pk (tournament view)) (objects d (model view))"

text \<open>
  \<^verbatim>\<open>
  def get_object_queryset(self):
      lookup_url_kwarg = self.lookup_url_kwarg or self.lookup_field
      filter_kwargs = {self.lookup_field: self.kwargs[lookup_url_kwarg]}
      return self.get_queryset().filter(**filter_kwargs)
  \<close>
  with \<^verbatim>\<open>lookup_field = 'pk'\<close> and \<^verbatim>\<open>lookup_url_kwarg = None\<close>. A queryset is lazy:
  it is a function of the store, run each time it is evaluated.
\<close>

definition get_object_queryset :: "checkins_view \<Rightarrow> db \<Rightarrow> checkable list" where
  "get_object_queryset view d = filter (\<lambda>c. pk c = kwargs_pk view) (get_queryset view d)"

text \<open>\<^verbatim>\<open>QuerySet.get()\<close>: exactly one row, or an exception that is not a 404.\<close>

fun queryset_get :: "checkable list \<Rightarrow> error + checkable" where
  "queryset_get [] = Inl DoesNotExist"
| "queryset_get [c] = Inr c"
| "queryset_get (c # c' # cs) = Inl MultipleObjectsReturned"

text \<open>\<^verbatim>\<open>get_object_or_404\<close>: \<^verbatim>\<open>get()\<close> with \<^verbatim>\<open>DoesNotExist\<close> turned into \<^verbatim>\<open>Http404\<close>.\<close>

definition get_object_or_404 :: "checkable list \<Rightarrow> error + checkable" where
  "get_object_or_404 qs =
     (case queryset_get qs of
        Inl DoesNotExist \<Rightarrow> Inl Http404
      | Inl e \<Rightarrow> Inl e
      | Inr c \<Rightarrow> Inr c)"

text \<open>
  \<^verbatim>\<open>
  def get_object(self):
      obj = get_object_or_404(self.get_object_queryset())
      # May raise a permission denied
      self.check_object_permissions(self.request, obj)
      if not hasattr(obj, 'checkin_identifier'):
          raise Http404('No identifier')
      return obj
  \<close>
  The permission classes come from \<^verbatim>\<open>AdministratorAPIMixin\<close>, which is not part of the
  sources: the object-level check is the parameter \<^verbatim>\<open>permitted\<close>.
\<close>

definition get_object :: "(checkable \<Rightarrow> bool) \<Rightarrow> checkins_view \<Rightarrow> db \<Rightarrow> error + checkable" where
  "get_object permitted view d =
     (case get_object_or_404 (get_object_queryset view d) of
        Inl e \<Rightarrow> Inl e
      | Inr obj \<Rightarrow>
          if \<not> permitted obj then Inl PermissionDenied
          else if checkin_identifier obj = None then Inl Http404
          else Inr obj)"

subsection \<open>Attribute access\<close>

text \<open>
  \<^verbatim>\<open>broadcast_checkin(self, obj, check)\<close> reads \<^verbatim>\<open>obj.checkin_identifier\<close>. The source
  calls it with a person or venue row (\<^verbatim>\<open>put\<close>, \<^verbatim>\<open>delete\<close>) and with an identifier
  (\<^verbatim>\<open>patch\<close>); an identifier has no attribute \<^verbatim>\<open>checkin_identifier\<close>.
\<close>

datatype pyobj = Row checkable | Ident identifier_rec

fun attr_checkin_identifier :: "pyobj \<Rightarrow> error + identifier_rec" where
  "attr_checkin_identifier (Row c) =
     (case checkin_identifier c of
        None \<Rightarrow> Inl RelatedObjectDoesNotExist
      | Some i \<Rightarrow> Inr i)"
| "attr_checkin_identifier (Ident i) = Inl AttributeError"

text \<open>
  \<^verbatim>\<open>
  def get_barcodes(self, obj):
      return [obj.checkin_identifier.barcode]
  \<close>
\<close>

definition get_barcodes :: "pyobj \<Rightarrow> error + string list" where
  "get_barcodes obj =
     (case attr_checkin_identifier obj of
        Inl e \<Rightarrow> Inl e
      | Inr i \<Rightarrow> Inr [barcode i])"

subsection \<open>Broadcast and response\<close>

text \<open>
  \<^verbatim>\<open>
  def broadcast_checkin(self, obj, check):
      CheckInEventConsumer().receive_json({
          'barcodes': self.get_barcodes(obj),
          'status': check,
          'type': obj.checkin_identifier.instance_attr,
          'component_id': None,
      })
  \<close>
  The call is synchronous and is not wrapped in any \<^verbatim>\<open>try\<close>: what the consumer
  raises, \<^verbatim>\<open>broadcast_checkin\<close> raises.
\<close>

definition broadcast_checkin ::
  "consumer \<Rightarrow> pyobj \<Rightarrow> bool \<Rightarrow> world \<Rightarrow> (error + unit) \<times> world" where
  "broadcast_checkin receive_json obj check w =
     (case get_barcodes obj of
        Inl e \<Rightarrow> (Inl e, w)
      | Inr bs \<Rightarrow>
          (case attr_checkin_identifier obj of
             Inl e \<Rightarrow> (Inl e, w)
           | Inr i \<Rightarrow>
               (let msg = \<lparr>barcodes = bs, status = check, msg_type = instance_attr i,
                           component_id = None\<rparr>;
                    (r, d') = receive_json msg (store w)
                in (r, \<lparr>store = d', sent = sent w @ [msg]\<rparr>))))"

text \<open>
  \<^verbatim>\<open>
  def get_response_dict(self, request, obj, checked, **kwargs):
      return {
          'object': reverse(self.object_api_view,
                            kwargs={'tournament_slug': self.tournament.slug, 'pk': obj.pk},
                            request=request, format=kwargs.get('format')),
          'barcode': obj.checkin_identifier.barcode,
          'checked': checked,
      }
  \<close>
  The handlers call it without keyword arguments, so \<^verbatim>\<open>kwargs.get('format')\<close> is
  \<^verbatim>\<open>None\<close>.
\<close>

definition get_response_dict :: "checkins_view \<Rightarrow> checkable \<Rightarrow> bool \<Rightarrow> error + response" where
  "get_response_dict view obj checked =
     (case attr_checkin_identifier (Row obj) of
        Inl e \<Rightarrow> Inl e
      | Inr i \<Rightarrow>
          Inr \<lparr>r_object = \<lparr>ref_view = object_api_view view,
                            ref_tournament_slug = slug (tournament view),
                            ref_pk = pk obj, ref_format = None\<rparr>,
               r_barcode = barcode i,
               r_checked = checked\<rparr>)"

subsection \<open>Unexpired check-ins\<close>

text \<open>
  \<^verbatim>\<open>checkins.utils.get_unexpired_checkins\<close> is not part of the sources: the views take
  it as the parameter \<^verbatim>\<open>unexpired\<close>, a query that, given the tournament and the name of
  the window preference, returns events of the store.
\<close>

type_synonym unexpired_query = "tournament_rec \<Rightarrow> string \<Rightarrow> db \<Rightarrow> event list"

text \<open>
  The expression that \<^verbatim>\<open>get\<close> and \<^verbatim>\<open>patch\<close> share:
  \<^verbatim>\<open>
  get_unexpired_checkins(self.tournament, self.window_preference_pref)
      .filter(identifier=obj.checkin_identifier).exists()
  \<close>
\<close>

definition unexpired_exists ::
  "unexpired_query \<Rightarrow> checkins_view \<Rightarrow> identifier_rec \<Rightarrow> db \<Rightarrow> bool" where
  "unexpired_exists unexpired view i d =
     (filter (\<lambda>e. ev_identifier e = i)
        (unexpired (tournament view) (window_preference_pref view) d) \<noteq> [])"

subsection \<open>The handlers\<close>

text \<open>
  \<^verbatim>\<open>
  def get(self, request, *args, **kwargs):
      obj = self.get_object()
      event = get_unexpired_checkins(self.tournament, self.window_preference_pref).filter(identifier=obj.checkin_identifier)
      return Response(self.get_response_dict(request, obj, event.exists()))
  \<close>
\<close>

definition get ::
  "(checkable \<Rightarrow> bool) \<Rightarrow> unexpired_query \<Rightarrow> checkins_view \<Rightarrow> world
     \<Rightarrow> (error + response) \<times> world" where
  "get permitted unexpired view w =
     (case get_object permitted view (store w) of
        Inl e \<Rightarrow> (Inl e, w)
      | Inr obj \<Rightarrow>
          (case attr_checkin_identifier (Row obj) of
             Inl e \<Rightarrow> (Inl e, w)
           | Inr i \<Rightarrow>
               (get_response_dict view obj (unexpired_exists unexpired view i (store w)), w)))"

text \<open>
  \<^verbatim>\<open>
  def delete(self, request, *args, **kwargs):
      """Checks out"""
      obj = self.get_object()
      self.broadcast_checkin(obj, False)
      return Response(self.get_response_dict(request, obj, False))

  def put(self, request, *args, **kwargs):
      """Checks in"""
      obj = self.get_object()
      self.broadcast_checkin(obj, True)
      return Response(self.get_response_dict(request, obj, True))
  \<close>
\<close>

definition delete ::
  "(checkable \<Rightarrow> bool) \<Rightarrow> consumer \<Rightarrow> checkins_view \<Rightarrow> world \<Rightarrow> (error + response) \<times> world" where
  "delete permitted receive_json view w =
     (case get_object permitted view (store w) of
        Inl e \<Rightarrow> (Inl e, w)
      | Inr obj \<Rightarrow>
          (case broadcast_checkin receive_json (Row obj) False w of
             (Inl e, w') \<Rightarrow> (Inl e, w')
           | (Inr _, w') \<Rightarrow> (get_response_dict view obj False, w')))"

definition put ::
  "(checkable \<Rightarrow> bool) \<Rightarrow> consumer \<Rightarrow> checkins_view \<Rightarrow> world \<Rightarrow> (error + response) \<times> world" where
  "put permitted receive_json view w =
     (case get_object permitted view (store w) of
        Inl e \<Rightarrow> (Inl e, w)
      | Inr obj \<Rightarrow>
          (case broadcast_checkin receive_json (Row obj) True w of
             (Inl e, w') \<Rightarrow> (Inl e, w')
           | (Inr _, w') \<Rightarrow> (get_response_dict view obj True, w')))"

text \<open>
  \<^verbatim>\<open>
  def patch(self, request, *args, **kwargs):
      """Toggles the check-in status"""
      obj = self.get_object()
      check = get_unexpired_checkins(self.tournament, self.window_preference_pref).filter(identifier=obj.checkin_identifier).exists()
      self.broadcast_checkin(obj.checkin_identifier, not check)
      return Response(self.get_response_dict(request, obj, not check))
  \<close>
  Unlike \<^verbatim>\<open>put\<close> and \<^verbatim>\<open>delete\<close>, \<^verbatim>\<open>patch\<close> hands \<^verbatim>\<open>broadcast_checkin\<close> the
  identifier, not the row.
\<close>

definition patch ::
  "(checkable \<Rightarrow> bool) \<Rightarrow> unexpired_query \<Rightarrow> consumer \<Rightarrow> checkins_view \<Rightarrow> world
     \<Rightarrow> (error + response) \<times> world" where
  "patch permitted unexpired receive_json view w =
     (case get_object permitted view (store w) of
        Inl e \<Rightarrow> (Inl e, w)
      | Inr obj \<Rightarrow>
          (case attr_checkin_identifier (Row obj) of
             Inl e \<Rightarrow> (Inl e, w)
           | Inr i \<Rightarrow>
               (let check = unexpired_exists unexpired view i (store w) in
                case broadcast_checkin receive_json (Ident i) (\<not> check) w of
                  (Inl e, w') \<Rightarrow> (Inl e, w')
                | (Inr _, w') \<Rightarrow> (get_response_dict view obj (\<not> check), w'))))"

text \<open>
  \<^verbatim>\<open>
  def post(self, request, *args, **kwargs):
      """Creates an identifier"""
      obj = self.get_object_queryset()
      create_identifiers(self.model.checkin_identifier.related.related_model, obj)
      return Response(self.get_response_dict(request, obj.get(), False))
  \<close>
  \<^verbatim>\<open>post\<close> does not go through \<^verbatim>\<open>get_object\<close>: the row is fetched with
  \<^verbatim>\<open>obj.get()\<close>, after the helper has run, from the store as the helper left it. It
  never calls \<^verbatim>\<open>broadcast_checkin\<close>.
\<close>

definition post ::
  "identifier_creator \<Rightarrow> checkins_view \<Rightarrow> world \<Rightarrow> (error + response) \<times> world" where
  "post create_identifiers view w =
     (let obj = get_object_queryset view in
      case create_identifiers (model view) (obj (store w)) (store w) of
        (Inl e, d') \<Rightarrow> (Inl e, w\<lparr>store := d'\<rparr>)
      | (Inr _, d') \<Rightarrow>
          (case queryset_get (obj d') of
             Inl e \<Rightarrow> (Inl e, w\<lparr>store := d'\<rparr>)
           | Inr row \<Rightarrow> (get_response_dict view row False, w\<lparr>store := d'\<rparr>)))"

subsection \<open>The collaborators, as the specification describes them\<close>

text \<open>
  Modelled from the spec: \<^verbatim>\<open>CheckInEventConsumer.receive_json\<close> is not part of the
  sources. By the specification's \<^verbatim>\<open>RecordEvent\<close>, one event is appended for each
  identifier of the message, with the message's status as its state and the current time
  as its timestamp; recording always succeeds. By its \<^verbatim>\<open>Publish\<close>, the message is then
  handed to the real-time transport, best effort: a failure of the dispatch is logged and
  discarded, never surfaced to the caller. The transport is the parameter \<^verbatim>\<open>publish\<close>.
\<close>

definition record_event :: "identifier_rec \<Rightarrow> bool \<Rightarrow> string \<Rightarrow> int \<Rightarrow> db \<Rightarrow> db" where
  "record_event i s a t d =
     d\<lparr>events := events d @ [\<lparr>ev_identifier = i, ev_state = s, ev_time = t, ev_actor = a\<rparr>]\<rparr>"

definition receive_json :: "(message \<Rightarrow> error + unit) \<Rightarrow> string \<Rightarrow> consumer" where
  "receive_json publish actor msg d =
     (let d' = fold (\<lambda>b d'. record_event \<lparr>barcode = b, instance_attr = msg_type msg\<rparr>
                              (status msg) actor (now d') d')
                    (barcodes msg) d
      in case publish msg of
           Inl failure \<Rightarrow> (Inr (), d')
         | Inr delivered \<Rightarrow> (Inr (), d'))"

text \<open>
  The specification's \<^verbatim>\<open>CurrentStatus(identifier, freshnessWindow)\<close>, in its own
  words: the state of the newest event of the identifier if that event's timestamp lies
  within the window of now, and false otherwise. Of two events with the same timestamp
  the one recorded later is the newer. No handler calls it.
\<close>

fun newest :: "event list \<Rightarrow> event option" where
  "newest [] = None"
| "newest (e # es) =
     (case newest es of
        None \<Rightarrow> Some e
      | Some e' \<Rightarrow> if ev_time e \<le> ev_time e' then Some e' else Some e)"

definition current_status :: "identifier_rec \<Rightarrow> int \<Rightarrow> db \<Rightarrow> bool" where
  "current_status i window d =
     (case newest (filter (\<lambda>e. ev_identifier e = i) (events d)) of
        None \<Rightarrow> False
      | Some e \<Rightarrow> if now d - window \<le> ev_time e then ev_state e else False)"

text \<open>
  Modelled from the spec: \<^verbatim>\<open>checkins.utils.get_unexpired_checkins\<close> is not part of
  the sources, and the specification does not name it; it describes the status that the
  store derives from the log. The check-ins in force are the events that decide a
  current status of true: an event that is the newest of its identifier, lies within the
  freshness window of now (the tournament preference that the view names in
  \<^verbatim>\<open>window_preference_pref\<close>) and has state true.
\<close>

definition get_unexpired_checkins :: unexpired_query where
  "get_unexpired_checkins t window_pref d =
     filter (\<lambda>e. newest (filter (\<lambda>x. ev_identifier x = ev_identifier e) (events d)) = Some e
                 \<and> now d - checkin_window t window_pref \<le> ev_time e
                 \<and> ev_state e)
            (events d)"

text \<open>
  Modelled from the spec: \<^verbatim>\<open>checkins.utils.create_identifiers\<close> is not part of the
  sources. By the specification's \<^verbatim>\<open>CreateIdentifier\<close>, each member of the set that
  lacks an identifier gets a generated one, and members already identified are left
  untouched; it fails with NotFound if the set is empty or refers to entities that the
  store does not know, and then creates nothing. The generate-and-retry loop is the
  parameter \<^verbatim>\<open>generate\<close>: the code it settles on, given the codes in use. The kind of
  identifier follows the model class.
\<close>

fun instance_attr_of :: "model \<Rightarrow> string" where
  "instance_attr_of Venue = ''venue''"
| "instance_attr_of Team = ''team''"
| "instance_attr_of _ = ''person''"

definition barcodes_in_use :: "db \<Rightarrow> string list" where
  "barcodes_in_use d =
     concat (map (\<lambda>m. map barcode (List.map_filter checkin_identifier (objects d m)))
                 [Adjudicator, Speaker, Team, Venue])"

definition identify :: "(string list \<Rightarrow> string) \<Rightarrow> model \<Rightarrow> checkable \<Rightarrow> db \<Rightarrow> db" where
  "identify generate m member d =
     d\<lparr>objects := (objects d)
        (m := map (\<lambda>c. if pk c = pk member \<and> checkin_identifier c = None
                        then c\<lparr>checkin_identifier :=
                                 Some \<lparr>barcode = generate (barcodes_in_use d),
                                       instance_attr = instance_attr_of m\<rparr>\<rparr>
                        else c)
                  (objects d m))\<rparr>"

definition create_identifiers :: "(string list \<Rightarrow> string) \<Rightarrow> identifier_creator" where
  "create_identifiers generate m members d =
     (if members = [] \<or> \<not> list_all (\<lambda>c. c \<in> set (objects d m)) members
      then (Inl Http404, d)
      else (Inr (), fold (identify generate m) members d))"

section \<open>Standings (BaseStandingsView)\<close>

text \<open>
  The model classes are declared in \<^verbatim>\<open>participants.models\<close> and \<^verbatim>\<open>venues.models\<close>,
  which are not part of the sources. A Django model class offers its queries through its
  manager, the class attribute \<^verbatim>\<open>objects\<close> (as \<^verbatim>\<open>BaseCheckinsView.get_queryset\<close>
  uses it); it has no attribute \<^verbatim>\<open>filter\<close>.
\<close>

definition model_class_getattr :: "model \<Rightarrow> string \<Rightarrow> error + unit" where
  "model_class_getattr m name = (if name = ''objects'' then Inr () else Inl AttributeError)"

record entrant =
  entrant_pk :: nat
  entrant_tournament :: nat
  categories :: "nat list"

record standings_view = model_view +
  access_preference_key :: string
  category :: "nat option"

definition SpeakerStandingsView :: "tournament_rec \<Rightarrow> nat option \<Rightarrow> standings_view" where
  "SpeakerStandingsView t c =
     \<lparr>tournament = t, model = Speaker, access_preference_key = ''speaker_tab_released'',
      category = c\<rparr>"

definition TeamStandingsView :: "tournament_rec \<Rightarrow> nat option \<Rightarrow> standings_view" where
  "TeamStandingsView t c =
     \<lparr>tournament = t, model = Team, access_preference_key = ''team_tab_released'',
      category = c\<rparr>"

text \<open>
  \<^verbatim>\<open>
  def get_queryset(self):
      qs = self.model.filter(**{self.tournament_field: self.tournament})
      category = self.request.query_params.get('category', None)
      if category is not None:
          return qs.filter(categories__pk=category)
      return qs
  \<close>
  The first line looks \<^verbatim>\<open>filter\<close> up on the model class itself, not on its manager.
\<close>

definition standings_get_queryset ::
  "standings_view \<Rightarrow> (model \<Rightarrow> entrant list) \<Rightarrow> error + entrant list" where
  "standings_get_queryset view table =
     (case model_class_getattr (model view) ''filter'' of
        Inl e \<Rightarrow> Inl e
      | Inr _ \<Rightarrow>
          (let qs = filter (\<lambda>r. entrant_tournament r = tournament_pk (tournament view))
                           (table (model view))
           in case category view of
                Some c \<Rightarrow> Inr (filter (\<lambda>r. c \<in> set (categories r)) qs)
              | None \<Rightarrow> Inr qs))"

text \<open>
  \<^verbatim>\<open>
  def get(self, request, format=None):
      return Response(self.get_serializer(data=Standings(self.get_queryset())).data)
  \<close>
  \<^verbatim>\<open>Standings\<close> (\<^verbatim>\<open>standings.base\<close>) and the serializers are not part of the sources:
  they are the parameters \<^verbatim>\<open>standings\<close> and \<^verbatim>\<open>serialize\<close>.
\<close>

definition standings_get ::
  "(entrant list \<Rightarrow> 's) \<Rightarrow> ('s \<Rightarrow> error + 'r) \<Rightarrow> standings_view \<Rightarrow> (model \<Rightarrow> entrant list)
     \<Rightarrow> error + 'r" where
  "standings_get standings serialize view table =
     (case standings_get_queryset view table of
        Inl e \<Rightarrow> Inl e
      | Inr qs \<Rightarrow> serialize (standings qs))"

section \<open>A venue with the barcode B1\<close>

definition example_tournament :: tournament_rec where
  "example_tournament =
     \<lparr>tournament_pk = 1, slug = ''open'',
      current_round = \<lparr>round_id = 1, draw_status = STATUS_RELEASED\<rparr>,
      pref = (\<lambda>_. ''current''), checkin_window = (\<lambda>_. 5)\<rparr>"

definition example_identifier :: identifier_rec where
  "example_identifier = \<lparr>barcode = ''B1'', instance_attr = ''venue''\<rparr>"

definition example_venue :: checkable where
  "example_venue = \<lparr>pk = 7, in_tournament = 1, checkin_identifier = Some example_identifier\<rparr>"

definition example_store :: db where
  "example_store =
     \<lparr>objects = (\<lambda>m. if m = Venue then [example_venue] else []), events = [], now = 100\<rparr>"

definition example_world :: world where
  "example_world = \<lparr>store = example_store, sent = []\<rparr>"

definition example_view :: checkins_view where
  "example_view = VenueCheckinsView example_tournament 7"

definition example_pairing_view :: "string \<Rightarrow> nat \<Rightarrow> draw_status \<Rightarrow> pairing_view" where
  "example_pairing_view p r st =
     \<lparr>tournament = example_tournament\<lparr>pref := (\<lambda>_. p)\<rparr>,
      round = \<lparr>round_id = r, draw_status = st\<rparr>,
      access_preference = ''public_draw''\<rparr>"

definition permit_all :: "checkable \<Rightarrow> bool" where
  "permit_all obj = True"

text \<open>
  Logs of the venue B1, read at time 100 with a window of 5: a check-out at 98; a check-in
  at 94; a check-in at 98; a check-in at 97 followed by a check-out at 98.
\<close>

definition checked_out_world :: world where
  "checked_out_world =
     \<lparr>store = example_store\<lparr>events :=
        [\<lparr>ev_identifier = example_identifier, ev_state = False, ev_time = 98,
          ev_actor = ''desk''\<rparr>]\<rparr>,
      sent = []\<rparr>"

definition expired_world :: world where
  "expired_world =
     \<lparr>store = example_store\<lparr>events :=
        [\<lparr>ev_identifier = example_identifier, ev_state = True, ev_time = 94,
          ev_actor = ''desk''\<rparr>]\<rparr>,
      sent = []\<rparr>"

definition checked_in_world :: world where
  "checked_in_world =
     \<lparr>store = example_store\<lparr>events :=
        [\<lparr>ev_identifier = example_identifier, ev_state = True, ev_time = 98,
          ev_actor = ''desk''\<rparr>]\<rparr>,
      sent = []\<rparr>"

definition in_then_out_world :: world where
  "in_then_out_world =
     \<lparr>store = example_store\<lparr>events :=
        [\<lparr>ev_identifier = example_identifier, ev_state = True, ev_time = 97,
          ev_actor = ''desk''\<rparr>,
         \<lparr>ev_identifier = example_identifier, ev_state = False, ev_time = 98,
          ev_actor = ''desk''\<rparr>]\<rparr>,
      sent = []\<rparr>"


definition working_transport :: "message \<Rightarrow> error + unit" where
  "working_transport msg = Inr ()"

text \<open>The message that a check-in or check-out of one identifier is announced with.\<close>

definition checkin_message :: "identifier_rec \<Rightarrow> bool \<Rightarrow> message" where
  "checkin_message i check =
     \<lparr>barcodes = [barcode i], status = check, msg_type = instance_attr i, component_id = None\<rparr>"

section \<open>Theorems\<close>

subsection \<open>Facts about the handlers\<close>

lemma get_object_identified:
  "get_object permitted view d = Inr obj \<Longrightarrow> \<exists>i. checkin_identifier obj = Some i"
  by (auto simp add: get_object_def split: sum.splits if_splits)

lemma get_object_events:
  "get_object permitted view (d\<lparr>events := es\<rparr>) = get_object permitted view d"
  by (simp add: get_object_def get_object_queryset_def get_queryset_def)

lemma broadcast_row:
  "checkin_identifier obj = Some i \<Longrightarrow>
   broadcast_checkin rj (Row obj) check w =
     (fst (rj (checkin_message i check) (store w)),
      \<lparr>store = snd (rj (checkin_message i check) (store w)),
       sent = sent w @ [checkin_message i check]\<rparr>)"
  by (simp add: broadcast_checkin_def get_barcodes_def checkin_message_def Let_def
      split: prod.splits)

lemma receive_json_single:
  "receive_json publish actor (checkin_message i check) d =
     (Inr (), record_event i check actor (now d) d)"
  by (cases i) (simp add: receive_json_def checkin_message_def split: sum.splits)


lemma put_response_checked:
  "fst (put permitted rj view w) = Inr r \<Longrightarrow> r_checked r = True"
  by (auto simp add: put_def get_response_dict_def split: sum.splits prod.splits option.splits)

lemma delete_response_checked:
  "fst (delete permitted rj view w) = Inr r \<Longrightarrow> r_checked r = False"
  by (auto simp add: delete_def get_response_dict_def split: sum.splits prod.splits option.splits)

lemma put_recorded:
  assumes "get_object permitted view (store w) = Inr obj" and "checkin_identifier obj = Some i"
  shows "put permitted (receive_json publish actor) view w =
           (get_response_dict view obj True,
            \<lparr>store = record_event i True actor (now (store w)) (store w),
             sent = sent w @ [checkin_message i True]\<rparr>)"
  using assms by (simp add: put_def broadcast_row receive_json_single)

lemma delete_recorded:
  assumes "get_object permitted view (store w) = Inr obj" and "checkin_identifier obj = Some i"
  shows "delete permitted (receive_json publish actor) view w =
           (get_response_dict view obj False,
            \<lparr>store = record_event i False actor (now (store w)) (store w),
             sent = sent w @ [checkin_message i False]\<rparr>)"
  using assms by (simp add: delete_def broadcast_row receive_json_single)

lemma get_identified:
  assumes "get_object permitted view (store w) = Inr obj"
    and "checkin_identifier obj = Some i"
  shows "get permitted unexpired view w =
           (Inr \<lparr>r_object = \<lparr>ref_view = object_api_view view,
                              ref_tournament_slug = slug (tournament view),
                              ref_pk = pk obj, ref_format = None\<rparr>,
                 r_barcode = barcode i,
                 r_checked = unexpired_exists unexpired view i (store w)\<rparr>,
            w)"
  using assms by (simp add: get_def get_response_dict_def)

lemma get_world: "snd (get permitted unexpired view w) = w"
  by (simp add: get_def split: sum.splits)

lemma funpow_ident: "((\<lambda>x. x) ^^ n) w = w"
  by (induction n) simp_all


text \<open>
  Whatever the helper, \<^verbatim>\<open>post\<close> raises \<^verbatim>\<open>Http404\<close> only if the helper does: its own
  failures are those of \<^verbatim>\<open>obj.get()\<close> and of the attribute access.
\<close>

lemma post_never_404_itself:
  "fst (post ci view w) = Inl Http404 \<Longrightarrow>
   fst (ci (model view) (get_object_queryset view (store w)) (store w)) = Inl Http404"
  by (auto simp add: post_def Let_def get_response_dict_def
      split: prod.splits sum.splits option.splits elim: queryset_get.elims)

text \<open>
  Whatever the consumer and the log, \<^verbatim>\<open>patch\<close> on a row that has an identifier stops in
  \<^verbatim>\<open>get_barcodes\<close>, before the consumer is called.
\<close>

lemma patch_always_fails:
  "get_object permitted view (store w) = Inr obj \<Longrightarrow>
   patch permitted unexpired rj view w = (Inl AttributeError, w)"
  by (auto simp add: patch_def get_object_def broadcast_checkin_def get_barcodes_def
      split: sum.splits option.splits if_splits)

text \<open>
  Whatever the consumer, \<^verbatim>\<open>put\<close> and \<^verbatim>\<open>delete\<close> add nothing to what it does: what
  it raises they raise, the store is left as it left it, and when it returns normally
  the response does not depend on it.
\<close>

lemma dispatch_outcome_is_the_consumers:
  assumes "get_object permitted view (store w) = Inr obj"
    and "checkin_identifier obj = Some i"
  shows "fst (put permitted rj view w) =
           (case fst (rj (checkin_message i True) (store w)) of
              Inl e \<Rightarrow> Inl e
            | Inr u \<Rightarrow> get_response_dict view obj True)
     \<and> fst (delete permitted rj view w) =
           (case fst (rj (checkin_message i False) (store w)) of
              Inl e \<Rightarrow> Inl e
            | Inr u \<Rightarrow> get_response_dict view obj False)
     \<and> snd (put permitted rj view w) =
           \<lparr>store = snd (rj (checkin_message i True) (store w)),
            sent = sent w @ [checkin_message i True]\<rparr>
     \<and> snd (delete permitted rj view w) =
           \<lparr>store = snd (rj (checkin_message i False) (store w)),
            sent = sent w @ [checkin_message i False]\<rparr>"
  using assms
  by (simp add: put_def delete_def broadcast_row split: sum.splits)

lemma identify_identified:
  assumes "obj \<in> set (objects d m)" and "checkin_identifier obj = Some i"
    and "distinct (map pk (objects d m))"
  shows "identify generate m obj d = d"
proof -
  have "c = obj" if "c \<in> set (objects d m)" and "pk c = pk obj" for c
    using that assms(1,3) by (meson distinct_map inj_onD)
  then have "map (\<lambda>c. if pk c = pk obj \<and> checkin_identifier c = None
                        then c\<lparr>checkin_identifier :=
                                 Some \<lparr>barcode = generate (barcodes_in_use d),
                                       instance_attr = instance_attr_of m\<rparr>\<rparr>
                        else c) (objects d m) = objects d m"
    using assms(2) by (intro map_idI) force
  then show ?thesis
    by (simp add: identify_def)
qed

subsection \<open>Facts about the newest event\<close>

lemma newest_None: "newest es = None \<longleftrightarrow> es = []"
  by (induction es) (auto split: option.splits)

lemma newest_Some:
  "newest es = Some e \<Longrightarrow> e \<in> set es \<and> (\<forall>x \<in> set es. ev_time x \<le> ev_time e)"
proof (induction es arbitrary: e)
  case Nil
  then show ?case by simp
next
  case (Cons a es)
  show ?case
  proof (cases "newest es")
    case None
    then have "es = []" by (simp add: newest_None)
    with Cons.prems show ?thesis by simp
  next
    case (Some e')
    from Cons.IH [OF Some] have ih: "e' \<in> set es" "\<forall>x \<in> set es. ev_time x \<le> ev_time e'"
      by simp_all
    show ?thesis
      using Cons.prems Some ih by (auto split: if_splits)
  qed
qed

lemma unexpired_current_status:
  "unexpired_exists get_unexpired_checkins view i d =
     current_status i (checkin_window (tournament view) (window_preference_pref view)) d"
proof (cases "newest (filter (\<lambda>e. ev_identifier e = i) (events d))")
  case None
  then show ?thesis
    by (auto simp add: unexpired_exists_def get_unexpired_checkins_def current_status_def
        filter_empty_conv)
next
  case (Some e)
  from newest_Some [OF Some] have e: "e \<in> set (events d)" "ev_identifier e = i"
    by auto
  show ?thesis
    using Some e
    by (auto simp add: unexpired_exists_def get_unexpired_checkins_def current_status_def
        filter_empty_conv)
qed

subsection \<open>Facts about the venue B1\<close>

lemma ex_get_object: "get_object permit_all example_view example_store = Inr example_venue"
  by (simp add: get_object_def get_object_or_404_def get_object_queryset_def get_queryset_def
      example_view_def VenueCheckinsView_def example_store_def example_venue_def
      example_tournament_def permit_all_def)

lemma ex_get_object_world:
  "get_object permit_all example_view (store example_world) = Inr example_venue"
  "get_object permit_all example_view (store checked_out_world) = Inr example_venue"
  "get_object permit_all example_view (store expired_world) = Inr example_venue"
  "get_object permit_all example_view (store checked_in_world) = Inr example_venue"
  "get_object permit_all example_view (store in_then_out_world) = Inr example_venue"
  by (simp_all add: example_world_def checked_out_world_def expired_world_def
      checked_in_world_def in_then_out_world_def get_object_events ex_get_object)

lemma ex_status:
  "\<not> current_status example_identifier 5 (store checked_out_world)"
  "\<not> current_status example_identifier 5 (store expired_world)"
  "current_status example_identifier 5 (store checked_in_world)"
  "\<not> current_status example_identifier 5 (store in_then_out_world)"
  by (simp_all add: current_status_def checked_out_world_def expired_world_def
      checked_in_world_def in_then_out_world_def example_store_def)


lemma ex_identifier: "checkin_identifier example_venue = Some example_identifier"
  by (simp add: example_venue_def)

lemma ex_fields:
  "checkin_window (tournament example_view) (window_preference_pref example_view) = 5"
  "object_api_view example_view = ''api-venue-detail''"
  "slug (tournament example_view) = ''open''"
  "pk example_venue = 7"
  "barcode example_identifier = ''B1''"
  by (simp_all add: example_view_def VenueCheckinsView_def example_tournament_def
      example_venue_def example_identifier_def)

subsection \<open>The claims\<close>

text \<open>
  C1. For every release preference, requester role and round state the pairing
  visibility decision follows the gate's truth table: an administrator is always granted
  access; for any other requester the preference \<^verbatim>\<open>off\<close> denies, \<^verbatim>\<open>current\<close> grants
  exactly when the round is the tournament's current round and its draw is released, and
  \<^verbatim>\<open>all-released\<close> grants exactly when the round's draw is released, current or not.
\<close>

theorem pairing_visibility_truth_table:
  "has_permission True view = Inr True
   \<and> (pref (tournament view) (access_preference view) = ''off'' \<longrightarrow>
        has_permission False view = Inr False)
   \<and> (pref (tournament view) (access_preference view) = ''current'' \<longrightarrow>
        has_permission False view =
          Inr (round_id (current_round (tournament view)) = round_id (round view)
               \<and> draw_status (round view) = STATUS_RELEASED))
   \<and> (pref (tournament view) (access_preference view) = ''all-released'' \<longrightarrow>
        has_permission False view = Inr (draw_status (round view) = STATUS_RELEASED))"
  by (simp add: has_permission_def get_tournament_preference_def get_round_status_def
      round_released_value_def)

theorem pairing_visibility_truth_table_witness:
  "has_permission True (example_pairing_view ''off'' 2 STATUS_NONE) = Inr True
   \<and> has_permission False (example_pairing_view ''off'' 1 STATUS_RELEASED) = Inr False
   \<and> has_permission False (example_pairing_view ''current'' 1 STATUS_RELEASED) = Inr True
   \<and> has_permission False (example_pairing_view ''current'' 2 STATUS_RELEASED) = Inr False
   \<and> has_permission False (example_pairing_view ''current'' 1 STATUS_CONFIRMED) = Inr False
   \<and> has_permission False (example_pairing_view ''all-released'' 2 STATUS_RELEASED) = Inr True
   \<and> has_permission False (example_pairing_view ''all-released'' 1 STATUS_CONFIRMED) = Inr False
   \<and> has_permission False (example_pairing_view ''all-released'' 2 STATUS_DRAFT) = Inr False
   \<and> has_permission False (example_pairing_view ''all-released'' 2 STATUS_NONE) = Inr False"
  using
    pairing_visibility_truth_table [of "example_pairing_view ''off'' 2 STATUS_NONE"]
    pairing_visibility_truth_table [of "example_pairing_view ''off'' 1 STATUS_RELEASED"]
    pairing_visibility_truth_table [of "example_pairing_view ''current'' 1 STATUS_RELEASED"]
    pairing_visibility_truth_table [of "example_pairing_view ''current'' 2 STATUS_RELEASED"]
    pairing_visibility_truth_table [of "example_pairing_view ''current'' 1 STATUS_CONFIRMED"]
    pairing_visibility_truth_table [of "example_pairing_view ''all-released'' 2 STATUS_RELEASED"]
    pairing_visibility_truth_table [of "example_pairing_view ''all-released'' 1 STATUS_CONFIRMED"]
    pairing_visibility_truth_table [of "example_pairing_view ''all-released'' 2 STATUS_DRAFT"]
    pairing_visibility_truth_table [of "example_pairing_view ''all-released'' 2 STATUS_NONE"]
  by (simp add: example_pairing_view_def example_tournament_def)



text \<open>
  C3. For every checkable with an identifier, Get returns checked equal to the state of
  the most recent event of that identifier when that event's timestamp lies within the
  freshness window of now, and checked = false otherwise; in particular, when the most
  recent event was recorded at T and is read after T + window, Get returns checked =
  false. The check-ins in force are the store's, as the specification describes them.
\<close>

theorem get_returns_current_status:
  assumes "get_object permitted view (store w) = Inr obj"
  shows "\<exists>i. checkin_identifier obj = Some i
     \<and> get permitted get_unexpired_checkins view w =
         (Inr \<lparr>r_object = \<lparr>ref_view = object_api_view view,
                            ref_tournament_slug = slug (tournament view),
                            ref_pk = pk obj, ref_format = None\<rparr>,
               r_barcode = barcode i,
               r_checked =
                 current_status i
                   (checkin_window (tournament view) (window_preference_pref view))
                   (store w)\<rparr>,
          w)
     \<and> (\<forall>e. newest (filter (\<lambda>x. ev_identifier x = i) (events (store w))) = Some e
             \<and> ev_time e + checkin_window (tournament view) (window_preference_pref view)
                 < now (store w) \<longrightarrow>
          get permitted get_unexpired_checkins view w =
            (Inr \<lparr>r_object = \<lparr>ref_view = object_api_view view,
                               ref_tournament_slug = slug (tournament view),
                               ref_pk = pk obj, ref_format = None\<rparr>,
                  r_barcode = barcode i, r_checked = False\<rparr>,
             w))"
proof -
  from assms obtain i where i: "checkin_identifier obj = Some i"
    using get_object_identified by blast
  note g = get_identified [OF assms i, of get_unexpired_checkins]
  have c: "\<not> current_status i
              (checkin_window (tournament view) (window_preference_pref view)) (store w)"
    if "newest (filter (\<lambda>x. ev_identifier x = i) (events (store w))) = Some e"
      and "ev_time e + checkin_window (tournament view) (window_preference_pref view)
             < now (store w)" for e
    using that by (simp add: current_status_def)
  show ?thesis
    using i g c by (auto simp add: unexpired_current_status)
qed

theorem get_returns_current_status_witness:
  "get permit_all get_unexpired_checkins example_view checked_in_world =
     (Inr \<lparr>r_object = \<lparr>ref_view = ''api-venue-detail'', ref_tournament_slug = ''open'',
                       ref_pk = 7, ref_format = None\<rparr>,
           r_barcode = ''B1'', r_checked = True\<rparr>,
      checked_in_world)
   \<and> get permit_all get_unexpired_checkins example_view expired_world =
     (Inr \<lparr>r_object = \<lparr>ref_view = ''api-venue-detail'', ref_tournament_slug = ''open'',
                       ref_pk = 7, ref_format = None\<rparr>,
           r_barcode = ''B1'', r_checked = False\<rparr>,
      expired_world)
   \<and> get permit_all get_unexpired_checkins example_view checked_out_world =
     (Inr \<lparr>r_object = \<lparr>ref_view = ''api-venue-detail'', ref_tournament_slug = ''open'',
                       ref_pk = 7, ref_format = None\<rparr>,
           r_barcode = ''B1'', r_checked = False\<rparr>,
      checked_out_world)
   \<and> get permit_all get_unexpired_checkins example_view in_then_out_world =
     (Inr \<lparr>r_object = \<lparr>ref_view = ''api-venue-detail'', ref_tournament_slug = ''open'',
                       ref_pk = 7, ref_format = None\<rparr>,
           r_barcode = ''B1'', r_checked = False\<rparr>,
      in_then_out_world)"
  using get_returns_current_status [OF ex_get_object_world(4)]
    get_returns_current_status [OF ex_get_object_world(3)]
    get_returns_current_status [OF ex_get_object_world(2)]
    get_returns_current_status [OF ex_get_object_world(5)]
  by (auto simp add: ex_fields ex_identifier ex_status)

text \<open>
  C4. Toggle reads the current status, records and returns its negation, so that two
  Toggle calls in sequence restore the original state. The handler does not get that
  far: for the venue B1, whatever the query for the check-ins in force and whatever the
  consumer, \<^verbatim>\<open>patch\<close> raises \<^verbatim>\<open>AttributeError\<close>, hands nothing to the consumer and
  leaves the store as it was.
\<close>

theorem toggle_raises_attribute_error:
  "patch permit_all unexpired rj example_view example_world = (Inl AttributeError, example_world)"
  by (rule patch_always_fails [OF ex_get_object_world(1)])

text \<open>
  C5. For every checkable with an identifier and every prior event log, CheckIn records
  state true and returns checked = true, and CheckOut records state false and returns
  checked = false; the returned value does not depend on the prior state. The recording
  is the consumer's, as the specification describes it, whatever the transport does;
  that a response of \<^verbatim>\<open>put\<close> carries true and one of \<^verbatim>\<open>delete\<close> false holds for
  every consumer.
\<close>

theorem checkin_checkout_unconditional:
  assumes "get_object permitted view (store w) = Inr obj"
  shows "\<exists>i. checkin_identifier obj = Some i
     \<and> put permitted (receive_json publish actor) view w =
         (Inr \<lparr>r_object = \<lparr>ref_view = object_api_view view,
                            ref_tournament_slug = slug (tournament view),
                            ref_pk = pk obj, ref_format = None\<rparr>,
               r_barcode = barcode i, r_checked = True\<rparr>,
          \<lparr>store = record_event i True actor (now (store w)) (store w),
           sent = sent w @ [checkin_message i True]\<rparr>)
     \<and> delete permitted (receive_json publish actor) view w =
         (Inr \<lparr>r_object = \<lparr>ref_view = object_api_view view,
                            ref_tournament_slug = slug (tournament view),
                            ref_pk = pk obj, ref_format = None\<rparr>,
               r_barcode = barcode i, r_checked = False\<rparr>,
          \<lparr>store = record_event i False actor (now (store w)) (store w),
           sent = sent w @ [checkin_message i False]\<rparr>)
     \<and> (\<forall>rj r. fst (put permitted rj view w) = Inr r \<longrightarrow> r_checked r)
     \<and> (\<forall>rj r. fst (delete permitted rj view w) = Inr r \<longrightarrow> \<not> r_checked r)"
proof -
  from assms obtain i where i: "checkin_identifier obj = Some i"
    using get_object_identified by blast
  have resp: "get_response_dict view obj c =
      Inr \<lparr>r_object = \<lparr>ref_view = object_api_view view,
                        ref_tournament_slug = slug (tournament view),
                        ref_pk = pk obj, ref_format = None\<rparr>,
           r_barcode = barcode i, r_checked = c\<rparr>" for c
    using i by (simp add: get_response_dict_def)
  show ?thesis
    using i put_recorded [OF assms i, of publish actor]
      delete_recorded [OF assms i, of publish actor] resp
      put_response_checked delete_response_checked
    by auto
qed

theorem checkin_checkout_unconditional_witness:
  "put permit_all (receive_json working_transport ''desk'') example_view example_world =
     (Inr \<lparr>r_object = \<lparr>ref_view = ''api-venue-detail'', ref_tournament_slug = ''open'',
                       ref_pk = 7, ref_format = None\<rparr>,
           r_barcode = ''B1'', r_checked = True\<rparr>,
      \<lparr>store = example_store\<lparr>events :=
          [\<lparr>ev_identifier = example_identifier, ev_state = True, ev_time = 100,
            ev_actor = ''desk''\<rparr>]\<rparr>,
       sent = [checkin_message example_identifier True]\<rparr>)
   \<and> delete permit_all (receive_json working_transport ''desk'') example_view checked_out_world =
     (Inr \<lparr>r_object = \<lparr>ref_view = ''api-venue-detail'', ref_tournament_slug = ''open'',
                       ref_pk = 7, ref_format = None\<rparr>,
           r_barcode = ''B1'', r_checked = False\<rparr>,
      \<lparr>store = example_store\<lparr>events :=
          [\<lparr>ev_identifier = example_identifier, ev_state = False, ev_time = 98,
            ev_actor = ''desk''\<rparr>,
           \<lparr>ev_identifier = example_identifier, ev_state = False, ev_time = 100,
            ev_actor = ''desk''\<rparr>]\<rparr>,
       sent = [checkin_message example_identifier False]\<rparr>)"
  using checkin_checkout_unconditional
      [OF ex_get_object_world(1), of working_transport "''desk''"]
    checkin_checkout_unconditional
      [OF ex_get_object_world(2), of working_transport "''desk''"]
  by (auto simp add: ex_fields ex_identifier example_world_def checked_out_world_def
      record_event_def example_store_def)

text \<open>
  C6. CreateIdentifier fails with NotFound when the checkable set is empty or refers to
  entities unknown in the tournament: the queryset of the view is then empty, the
  operation fails with \<^verbatim>\<open>Http404\<close>, and the store is as it was, so no identifier is
  created.
\<close>

theorem create_identifiers_not_found:
  assumes "get_object_queryset view (store w) = []"
  shows "post (create_identifiers generate) view w = (Inl Http404, w)"
  using assms by (simp add: post_def create_identifiers_def)

theorem create_identifiers_not_found_witness:
  "post (create_identifiers (\<lambda>used. ''B2'')) (VenueCheckinsView example_tournament 8)
     example_world = (Inl Http404, example_world)
   \<and> post (create_identifiers (\<lambda>used. ''B2''))
        (VenueCheckinsView (example_tournament\<lparr>tournament_pk := 2\<rparr>) 7)
        example_world = (Inl Http404, example_world)"
proof -
  have q1: "get_object_queryset (VenueCheckinsView example_tournament 8) (store example_world)
      = []"
    by (simp add: get_object_queryset_def get_queryset_def VenueCheckinsView_def
        example_world_def example_store_def example_venue_def example_tournament_def)
  have q2: "get_object_queryset
      (VenueCheckinsView (example_tournament\<lparr>tournament_pk := 2\<rparr>) 7) (store example_world)
      = []"
    by (simp add: get_object_queryset_def get_queryset_def VenueCheckinsView_def
        example_world_def example_store_def example_venue_def example_tournament_def)
  show ?thesis
    using create_identifiers_not_found [OF q1, of "\<lambda>used. ''B2''"]
      create_identifiers_not_found [OF q2, of "\<lambda>used. ''B2''"]
    by simp
qed

text \<open>
  C7. Identifier creation is idempotent: for a checkable that already owns an
  identifier, repeating CreateIdentifiers is a no-op that returns the pre-existing
  barcode with checked = false and leaves the identifier, and the whole store,
  unchanged. The rows of a table have distinct primary keys.
\<close>

theorem create_identifiers_idempotent:
  assumes "get_object_queryset view (store w) = [obj]"
    and "checkin_identifier obj = Some i"
    and "distinct (map pk (objects (store w) (model view)))"
  shows "post (create_identifiers generate) view w =
           (Inr \<lparr>r_object = \<lparr>ref_view = object_api_view view,
                              ref_tournament_slug = slug (tournament view),
                              ref_pk = pk obj, ref_format = None\<rparr>,
                 r_barcode = barcode i, r_checked = False\<rparr>,
            w)"
proof -
  have "obj \<in> set (get_object_queryset view (store w))"
    using assms(1) by simp
  then have mem: "obj \<in> set (objects (store w) (model view))"
    by (simp add: get_object_queryset_def get_queryset_def)
  have same: "fold (identify generate (model view)) [obj] (store w) = store w"
    using identify_identified [OF mem assms(2,3)] by simp
  show ?thesis
    using assms(1,2) same mem
    by (simp add: post_def create_identifiers_def get_response_dict_def)
qed

theorem create_identifiers_idempotent_witness:
  "post (create_identifiers (\<lambda>used. ''B2'')) example_view example_world =
     (Inr \<lparr>r_object = \<lparr>ref_view = ''api-venue-detail'', ref_tournament_slug = ''open'',
                       ref_pk = 7, ref_format = None\<rparr>,
           r_barcode = ''B1'', r_checked = False\<rparr>,
      example_world)"
proof -
  have q: "get_object_queryset example_view (store example_world) = [example_venue]"
    by (simp add: get_object_queryset_def get_queryset_def example_world_def example_store_def
        example_view_def VenueCheckinsView_def example_venue_def example_tournament_def)
  have d: "distinct (map pk (objects (store example_world) (model example_view)))"
    by (simp add: example_world_def example_store_def example_view_def VenueCheckinsView_def)
  show ?thesis
    using create_identifiers_idempotent [OF q ex_identifier d, of "\<lambda>used. ''B2''"]
    by (simp add: ex_fields)
qed

text \<open>
  C8. The standings projection is deterministic and ordered by score, descending, with
  ties broken by a stable secondary key. Neither standings view gets as far as a
  sequence: for every table, category filter, \<^verbatim>\<open>Standings\<close> and serializer, the first
  line of \<^verbatim>\<open>get_queryset\<close> raises \<^verbatim>\<open>AttributeError\<close>.
\<close>

theorem standings_raise_attribute_error:
  "standings_get standings serialize (SpeakerStandingsView example_tournament c) table
     = Inl AttributeError
   \<and> standings_get standings serialize (TeamStandingsView example_tournament c) table
     = Inl AttributeError"
  by (simp add: standings_get_def standings_get_queryset_def model_class_getattr_def)

text \<open>
  C10. Get is read-only: it appends no event and hands nothing to the consumer, so the
  store, the trace of messages and what any later Get answers are unchanged by any
  number of Get calls, whatever the query for the check-ins in force.
\<close>

theorem get_read_only:
  "snd (get permitted unexpired view w) = w
   \<and> ((\<lambda>w'. snd (get permitted unexpired view w')) ^^ n) w = w
   \<and> fst (get permitted' unexpired' view'
            (((\<lambda>w'. snd (get permitted unexpired view w')) ^^ n) w))
       = fst (get permitted' unexpired' view' w)"
  by (simp add: get_world funpow_ident)

end
